theory Spec2Isabelle
  imports Main "HOL-Library.AList" "HOL-Library.Char_ord" "HOL-Library.List_Lexorder"
begin

section \<open>Python values, dictionaries and exceptions\<close>

text \<open>
  The gateway service of \<^verbatim>\<open>tb_gateway_service.py\<close> passes dynamically typed values
  around: converted data, registry entries and RPC contents are all dictionaries. A connector
  object is represented by its identity and by what the service reads from it: its name
  (\<^verbatim>\<open>get_name()\<close>) and its \<^verbatim>\<open>_connector_type\<close>. Python compares connector objects by
  identity, so two connectors are equal here only when they are the same object; a connector
  loaded again under the same name is another object with another identity.
\<close>

datatype connector = Connector (ident: nat) (get_name: string) (connector_type: string)

datatype py =
    PNone
  | PBool bool
  | PInt int
  | PStr string
  | PList "py list"
  | PDict "(string \<times> py) list"
  | PConn connector

text \<open>
  A dictionary is an association list in insertion order. \<^verbatim>\<open>d[k] = v\<close> is
  \<^const>\<open>AList.update\<close> (the key keeps its place, a new key goes last), \<^verbatim>\<open>del d[k]\<close> is
  \<^const>\<open>AList.delete\<close>, \<^verbatim>\<open>k in d\<close> and \<^verbatim>\<open>d[k]\<close> read \<^const>\<open>map_of\<close>.
\<close>

type_synonym dict = "(string \<times> py) list"

datatype exn =
    KeyError string
  | AttributeError string
  | TypeError string
  | Exception string

text \<open>\<^verbatim>\<open>str(e)\<close>: a \<^verbatim>\<open>KeyError\<close> prints its key in quotes, the others their message.\<close>

fun str_exn :: "exn \<Rightarrow> string" where
  "str_exn (KeyError k) = CHR 0x27 # k @ [CHR 0x27]"
| "str_exn (AttributeError m) = m"
| "str_exn (TypeError m) = m"
| "str_exn (Exception m) = m"

text \<open>What the service logs at level error: \<^verbatim>\<open>log.error(msg)\<close>, \<^verbatim>\<open>log.error(e)\<close> and
  \<^verbatim>\<open>log.exception(e)\<close>. Debug and info records are left out.\<close>

datatype log_record = Log_error string | Log_error_exn exn | Log_exception exn

text \<open>
  The classes of the connectors the gateway ships with, by connector type
  (\<^verbatim>\<open>DEFAULT_CONNECTORS\<close>).
\<close>

definition DEFAULT_CONNECTORS :: "(string \<times> string) list" where
  "DEFAULT_CONNECTORS =
     [(''mqtt'', ''MqttConnector''), (''modbus'', ''ModbusConnector''),
      (''opcua'', ''OpcUaConnector''), (''ble'', ''BLEConnector''),
      (''request'', ''RequestConnector''), (''can'', ''CanConnector''),
      (''bacnet'', ''BACnetConnector''), (''odbc'', ''OdbcConnector''),
      (''rest'', ''RESTConnector''), (''snmp'', ''SNMPConnector''),
      (''ftp'', ''FTPConnector'')]"

text \<open>
  \<^verbatim>\<open>type(v).__name__\<close>, which the message of an \<^verbatim>\<open>AttributeError\<close> names. A connector
  of a type that is not among the default ones is named by its type.
\<close>

fun type_name :: "py \<Rightarrow> string" where
  "type_name PNone = ''NoneType''"
| "type_name (PBool b) = ''bool''"
| "type_name (PInt n) = ''int''"
| "type_name (PStr s) = ''str''"
| "type_name (PList xs) = ''list''"
| "type_name (PDict d) = ''dict''"
| "type_name (PConn c) =
     (case map_of DEFAULT_CONNECTORS (connector_type c) of
        Some class_name \<Rightarrow> class_name
      | None \<Rightarrow> connector_type c)"

text \<open>
  The exception of an attribute access that fails, with the message Python gives it:
  \<^verbatim>\<open>'int' object has no attribute 'split'\<close>. The message matters where it is sent in a
  reply; an exception that is only logged carries the name of the attribute or key.
\<close>

definition no_attribute :: "py \<Rightarrow> string \<Rightarrow> exn" where
  "no_attribute v a =
     AttributeError (CHR 0x27 # type_name v @ CHR 0x27 # '' object has no attribute '' @
                     CHR 0x27 # a @ [CHR 0x27])"

definition NoneType_has_no_attribute :: "string \<Rightarrow> exn" where
  "NoneType_has_no_attribute a = no_attribute PNone a"

text \<open>\<^verbatim>\<open>d.get(k)\<close>: the value, or \<^verbatim>\<open>None\<close> when the key is missing.\<close>

definition dict_get :: "dict \<Rightarrow> string \<Rightarrow> py" where
  "dict_get d k = (case map_of d k of None \<Rightarrow> PNone | Some v \<Rightarrow> v)"

text \<open>\<^verbatim>\<open>{**a, **b}\<close> and \<^verbatim>\<open>a.update(b.items())\<close>: the pairs of \<open>b\<close> are written into \<open>a\<close>
  from left to right.\<close>

definition dict_merge :: "('k \<times> 'v) list \<Rightarrow> ('k \<times> 'v) list \<Rightarrow> ('k \<times> 'v) list" where
  "dict_merge a b = fold (\<lambda>kv. AList.update (fst kv) (snd kv)) b a"


section \<open>The gateway state\<close>

text \<open>
  Calls on the cloud client (\<^verbatim>\<open>self.tb_client.client\<close>) are recorded in the order they are
  made. The publishing calls return a completion token; the token is identified with the call.
  The content of an RPC reply is a text: \<open>Dumps d\<close> is \<^verbatim>\<open>dumps(d)\<close>, and
  \<open>Error_500 m\<close> is the text \<^verbatim>\<open>{"error":"m", "code": 500}\<close> that the handler formats
  from an exception.
\<close>

datatype rpc_content = Dumps dict | Error_500 string

datatype cloud_call =
    Gw_connect_device string py
  | Gw_send_rpc_reply string "int option" rpc_content py
  | Send_rpc_reply "int option" rpc_content py "bool option"
  | Gw_disconnect_device string
  | Clean_device_sub_dict
  | Gw_set_server_side_rpc_request_handler
  | Set_server_side_rpc_request_handler
  | Subscribe_to_all_attributes
  | Gw_subscribe_to_all_attributes
  | Send_attributes dict
  | Gw_send_attributes string dict
  | Send_telemetry "py list"
  | Gw_send_telemetry string "py list"

text \<open>
  \<^verbatim>\<open>connected_devices.json\<close>: \<open>None\<close> is the empty file (opened for writing and nothing
  written), \<open>Some kvs\<close> is the JSON object with the pairs \<open>kvs\<close>, which
  \<^verbatim>\<open>dumps(..., indent=2, sort_keys=True)\<close> writes sorted by key. \<open>file_writes\<close>
  counts how often the file was opened for writing.
\<close>

record gateway =
  name :: string
  is_connected :: bool
  subscribed_to_rpc_topics :: bool
  connected_devices :: "(string \<times> dict) list"
  saved_devices :: "(string \<times> dict) list"
  connected_devices_file :: "(string \<times> string) list option"
  file_writes :: nat
  cloud :: "cloud_call list"
  available_connectors :: "(string \<times> connector) list"
  connector_incoming_messages :: "(string \<times> int) list"
  event_storage :: "dict list"
  storage_capacity :: nat
  log :: "log_record list"

section \<open>Device registry\<close>

text \<open>
  The loop of \<^verbatim>\<open>__save_persistent_devices\<close>: a device whose entry has no
  \<^verbatim>\<open>"connector"\<close> key raises \<^verbatim>\<open>KeyError\<close>, a connector that is \<^verbatim>\<open>None\<close> is skipped, any
  other value that is not a connector has no \<^verbatim>\<open>get_name\<close>.
\<close>

fun data_to_save :: "(string \<times> dict) list \<Rightarrow> exn + (string \<times> string) list" where
  "data_to_save [] = Inr []"
| "data_to_save ((device, entry) # rest) =
     (case map_of entry ''connector'' of
        None \<Rightarrow> Inl (KeyError ''connector'')
      | Some PNone \<Rightarrow> data_to_save rest
      | Some (PConn c) \<Rightarrow>
          (case data_to_save rest of
             Inl e \<Rightarrow> Inl e
           | Inr kvs \<Rightarrow> Inr ((device, get_name c) # kvs))
      | Some _ \<Rightarrow> Inl (AttributeError ''get_name''))"

definition save_persistent_devices :: "gateway \<Rightarrow> gateway" where
  "save_persistent_devices g =
     (case data_to_save (connected_devices g) of
        Inl e \<Rightarrow> g\<lparr>connected_devices_file := None,
                   file_writes := Suc (file_writes g),
                   log := log g @ [Log_exception e]\<rparr>
      | Inr kvs \<Rightarrow> g\<lparr>connected_devices_file := Some (sort_key fst kvs),
                     file_writes := Suc (file_writes g)\<rparr>)"

definition add_device :: "gateway \<Rightarrow> string \<Rightarrow> dict \<Rightarrow> py \<Rightarrow> gateway" where
  "add_device g device_name content device_type =
     (if map_of (saved_devices g) device_name = None then
        let device_type' = (if device_type \<noteq> PNone then device_type else PStr ''default'');
            entry = AList.update ''device_type'' device_type' content;
            g1 = g\<lparr>connected_devices := AList.update device_name entry (connected_devices g)\<rparr>;
            g2 = g1\<lparr>saved_devices := AList.update device_name entry (saved_devices g1)\<rparr>;
            g3 = save_persistent_devices g2
        in g3\<lparr>cloud := cloud g3 @ [Gw_connect_device device_name device_type']\<rparr>
      else g)"

text \<open>
  \<^verbatim>\<open>update_device\<close> and \<^verbatim>\<open>del_device\<close> can raise: the result is the exception, if any,
  paired with the state reached when it was raised.
\<close>

definition update_device :: "gateway \<Rightarrow> string \<Rightarrow> string \<Rightarrow> py \<Rightarrow> exn option \<times> gateway" where
  "update_device g device_name event content =
     (case map_of (connected_devices g) device_name of
        None \<Rightarrow> (Some (KeyError device_name), g)
      | Some entry \<Rightarrow>
          let g1 = (if event = ''connector'' \<and> dict_get entry event \<noteq> content
                    then save_persistent_devices g else g)
          in (None, g1\<lparr>connected_devices :=
                AList.update device_name (AList.update event content entry)
                  (connected_devices g1)\<rparr>))"

definition del_device :: "gateway \<Rightarrow> string \<Rightarrow> exn option \<times> gateway" where
  "del_device g device_name =
     (case map_of (connected_devices g) device_name of
        None \<Rightarrow> (Some (KeyError device_name), g)
      | Some _ \<Rightarrow>
          let g1 = g\<lparr>connected_devices := AList.delete device_name (connected_devices g)\<rparr>
          in (case map_of (saved_devices g1) device_name of
                None \<Rightarrow> (Some (KeyError device_name), g1)
              | Some _ \<Rightarrow>
                  let g2 = g1\<lparr>saved_devices := AList.delete device_name (saved_devices g1)\<rparr>;
                      g3 = g2\<lparr>cloud := cloud g2 @ [Gw_disconnect_device device_name]\<rparr>
                  in (None, save_persistent_devices g3)))"

section \<open>Connection supervision in the main loop\<close>

definition subscribe_to_service_topics :: "gateway \<Rightarrow> gateway" where
  "subscribe_to_service_topics g =
     g\<lparr>cloud := cloud g @
        [Clean_device_sub_dict,
         Gw_set_server_side_rpc_request_handler,
         Set_server_side_rpc_request_handler,
         Subscribe_to_all_attributes,
         Gw_subscribe_to_all_attributes]\<rparr>"

text \<open>
  \<^verbatim>\<open>for device in self._saved_devices: self.add_device(device, {"connector": ...},
  device_type=...)\<close>, over the keys the dictionary has when the loop starts.
\<close>

fun reannounce :: "string list \<Rightarrow> gateway \<Rightarrow> exn option \<times> gateway" where
  "reannounce [] g = (None, g)"
| "reannounce (device # rest) g =
     (case map_of (saved_devices g) device of
        None \<Rightarrow> (Some (KeyError device), g)
      | Some entry \<Rightarrow>
          (case map_of entry ''connector'' of
             None \<Rightarrow> (Some (KeyError ''connector''), g)
           | Some c \<Rightarrow>
               (case map_of entry ''device_type'' of
                  None \<Rightarrow> (Some (KeyError ''device_type''), g)
                | Some t \<Rightarrow> reannounce rest (add_device g device [(''connector'', c)] t))))"

text \<open>The two connection checks at the head of one pass of the main loop.\<close>

definition connection_check :: "gateway \<Rightarrow> exn option \<times> gateway" where
  "connection_check g =
     (let g1 = (if \<not> is_connected g \<and> subscribed_to_rpc_topics g
                then g\<lparr>subscribed_to_rpc_topics := False\<rparr> else g)
      in if is_connected g1 \<and> \<not> subscribed_to_rpc_topics g1 then
           (case reannounce (map fst (saved_devices g1)) g1 of
              (Some e, g2) \<Rightarrow> (Some e, g2)
            | (None, g2) \<Rightarrow>
                (None, (subscribe_to_service_topics g2)\<lparr>subscribed_to_rpc_topics := True\<rparr>))
         else (None, g1))"

section \<open>Ingress: from the converted-data queue to the event storage\<close>

text \<open>
  Modelled from the spec: \<^verbatim>\<open>TBUtility.validate_converted_data\<close> is not among the sources.
  The spec has it require the presence of \<^verbatim>\<open>deviceName\<close> (a string, in the Event data
  model) and of at least one payload section, \<^verbatim>\<open>telemetry\<close> or \<^verbatim>\<open>attributes\<close>.
\<close>

definition has_key :: "dict \<Rightarrow> string \<Rightarrow> bool" where
  "has_key d k = (case map_of d k of None \<Rightarrow> False | Some _ \<Rightarrow> True)"

definition validate_converted_data :: "dict \<Rightarrow> bool" where
  "validate_converted_data data =
     ((case map_of data ''deviceName'' of Some (PStr _) \<Rightarrow> True | _ \<Rightarrow> False) \<and>
      (has_key data ''telemetry'' \<or> has_key data ''attributes''))"

text \<open>
  Modelled from the spec: the storage backends are not among the sources. \<^verbatim>\<open>put\<close> returns
  whether the event was accepted; it is rejected when the capacity is exhausted.
  The JSON text \<^verbatim>\<open>dumps(data)\<close> is represented by the dictionary it encodes.
\<close>

definition put :: "gateway \<Rightarrow> dict \<Rightarrow> bool \<times> gateway" where
  "put g json_data =
     (if length (event_storage g) < storage_capacity g
      then (True, g\<lparr>event_storage := event_storage g @ [json_data]\<rparr>)
      else (False, g))"

text \<open>
  \<^verbatim>\<open>for item in v\<close>: a list yields its elements, a dictionary its keys, a string its
  characters; nothing else that occurs here is iterable.
\<close>

definition py_iter :: "py \<Rightarrow> exn + py list" where
  "py_iter v =
     (case v of
        PList xs \<Rightarrow> Inr xs
      | PDict d \<Rightarrow> Inr (map (\<lambda>kv. PStr (fst kv)) d)
      | PStr s \<Rightarrow> Inr (map (\<lambda>c. PStr [c]) s)
      | _ \<Rightarrow> Inl (TypeError ''object is not iterable''))"

text \<open>
  The loop over \<^verbatim>\<open>data["telemetry"]\<close> with its two accumulators \<^verbatim>\<open>telemetry\<close> and
  \<^verbatim>\<open>telemetry_with_ts\<close>. Only a dictionary has \<^verbatim>\<open>get\<close>; \<^verbatim>\<open>item["values"]\<close> must exist
  and, for \<^verbatim>\<open>{**item["values"]}\<close>, be a dictionary.
\<close>

fun telemetry_loop :: "py list \<Rightarrow> dict \<Rightarrow> py list \<Rightarrow> exn + dict \<times> py list" where
  "telemetry_loop [] telemetry telemetry_with_ts = Inr (telemetry, telemetry_with_ts)"
| "telemetry_loop (item # rest) telemetry telemetry_with_ts =
     (case item of
        PDict d \<Rightarrow>
          (case dict_get d ''ts'' of
             PNone \<Rightarrow> telemetry_loop rest (dict_merge telemetry d) telemetry_with_ts
           | ts \<Rightarrow>
               (case map_of d ''values'' of
                  None \<Rightarrow> Inl (KeyError ''values'')
                | Some (PDict vs) \<Rightarrow>
                    telemetry_loop rest telemetry
                      (telemetry_with_ts @ [PDict [(''ts'', ts), (''values'', PDict vs)]])
                | Some _ \<Rightarrow> Inl (TypeError ''object is not a mapping'')))
      | _ \<Rightarrow> Inl (AttributeError ''get''))"

definition normalize_telemetry :: "int \<Rightarrow> py \<Rightarrow> exn + py" where
  "normalize_telemetry now t =
     (case py_iter t of
        Inl e \<Rightarrow> Inl e
      | Inr items \<Rightarrow>
          (case telemetry_loop items [] [] of
             Inl e \<Rightarrow> Inl e
           | Inr (telemetry, telemetry_with_ts) \<Rightarrow>
               Inr (if telemetry_with_ts \<noteq> [] then PList telemetry_with_ts
                    else PDict [(''ts'', PInt now), (''values'', PDict telemetry)])))"

text \<open>
  The counter update of \<^verbatim>\<open>__send_to_storage\<close>: a missing or zero counter is set to 0,
  any other is incremented.
\<close>

definition count_message :: "gateway \<Rightarrow> string \<Rightarrow> gateway" where
  "count_message g connector_name =
     (case map_of (connector_incoming_messages g) connector_name of
        None \<Rightarrow> g\<lparr>connector_incoming_messages :=
                    AList.update connector_name 0 (connector_incoming_messages g)\<rparr>
      | Some n \<Rightarrow>
          (if n = 0
           then g\<lparr>connector_incoming_messages :=
                    AList.update connector_name 0 (connector_incoming_messages g)\<rparr>
           else g\<lparr>connector_incoming_messages :=
                    AList.update connector_name (n + 1) (connector_incoming_messages g)\<rparr>))"

text \<open>
  Auto-registration and counting, for an item of a connector other than the gateway itself.
  The arguments of \<^verbatim>\<open>add_device\<close> are evaluated before the call, so an unknown connector
  name or a missing \<^verbatim>\<open>deviceType\<close> raises before anything is changed. Device names are
  strings; any other value is rejected as an unhashable one is.
\<close>

definition register_and_count :: "gateway \<Rightarrow> string \<Rightarrow> dict \<Rightarrow> exn + gateway" where
  "register_and_count g connector_name data =
     (case map_of data ''deviceName'' of
        None \<Rightarrow> Inl (KeyError ''deviceName'')
      | Some (PStr device_name) \<Rightarrow>
          (if map_of (connected_devices g) device_name = None \<and> is_connected g then
             (case map_of (available_connectors g) connector_name of
                None \<Rightarrow> Inl (KeyError connector_name)
              | Some c \<Rightarrow>
                  (case map_of data ''deviceType'' of
                     None \<Rightarrow> Inl (KeyError ''deviceType'')
                   | Some t \<Rightarrow>
                       Inr (count_message
                              (add_device g device_name [(''connector'', PConn c)] t)
                              connector_name)))
           else Inr (count_message g connector_name))
      | Some _ \<Rightarrow> Inl (TypeError ''deviceName''))"

text \<open>Lines 473 to 490: normalise the telemetry, serialise, \<^verbatim>\<open>put\<close>. An exception is
  caught by the handler of the loop body and logged.\<close>

definition store :: "int \<Rightarrow> gateway \<Rightarrow> dict \<Rightarrow> gateway" where
  "store now g data =
     (case map_of data ''telemetry'' of
        None \<Rightarrow> g\<lparr>log := log g @ [Log_error_exn (KeyError ''telemetry'')]\<rparr>
      | Some t \<Rightarrow>
          (case normalize_telemetry now t of
             Inl e \<Rightarrow> g\<lparr>log := log g @ [Log_error_exn e]\<rparr>
           | Inr t' \<Rightarrow>
               (case put g (AList.update ''telemetry'' t' data) of
                  (True, g') \<Rightarrow> g'
                | (False, g') \<Rightarrow>
                    g'\<lparr>log := log g' @ [Log_error ''Data from the device cannot be saved'']\<rparr>)))"

text \<open>
  One pass of the body of \<^verbatim>\<open>while True\<close> on a queued item. \<open>Returned\<close> says that the
  function \<^verbatim>\<open>__send_to_storage\<close>, the target of the worker thread, has returned.
\<close>

datatype worker = Running | Returned

definition send_to_storage_item :: "int \<Rightarrow> gateway \<Rightarrow> string \<times> dict \<Rightarrow> worker \<times> gateway" where
  "send_to_storage_item now g item =
     (let connector_name = fst item; data = snd item in
      if connector_name \<noteq> name g then
        if \<not> validate_converted_data data then
          (Returned, g\<lparr>log := log g @ [Log_error ''Data from connector is invalid.'']\<rparr>)
        else
          (case register_and_count g connector_name data of
             Inl e \<Rightarrow> (Running, g\<lparr>log := log g @ [Log_error_exn e]\<rparr>)
           | Inr g1 \<Rightarrow> (Running, store now g1 data))
      else
        (Running,
         store now g (AList.update ''deviceName'' (PStr ''currentThingsBoardGateway'') data)))"

text \<open>
  The worker on the items of the converted-data queue, \<open>time i\<close> being the clock in
  milliseconds at the \<open>i\<close>-th item. On an empty queue the loop idles. The result has
  the items left in the queue.
\<close>

fun send_to_storage ::
  "(nat \<Rightarrow> int) \<Rightarrow> nat \<Rightarrow> (string \<times> dict) list \<Rightarrow> gateway
     \<Rightarrow> worker \<times> (string \<times> dict) list \<times> gateway" where
  "send_to_storage time i [] g = (Running, [], g)"
| "send_to_storage time i (item # queue) g =
     (case send_to_storage_item (time i) g item of
        (Returned, g') \<Rightarrow> (Returned, queue, g')
      | (Running, g') \<Rightarrow> send_to_storage time (Suc i) queue g')"

section \<open>Uplink: folding a pack of events into the accumulator\<close>

text \<open>
  \<^verbatim>\<open>devices_data_in_event_pack\<close> maps a device name to
  \<^verbatim>\<open>{"telemetry": [...], "attributes": {...}}\<close>.
\<close>

record device_data =
  telemetry :: "py list"
  attributes :: dict

type_synonym pack_data = "(string \<times> device_data) list"

definition empty_data :: device_data where
  "empty_data = \<lparr>telemetry = [], attributes = []\<rparr>"

text \<open>
  \<^verbatim>\<open>__send_data\<close>: for each device in turn, publish its attributes and its telemetry when
  there are any, on the gateway's own channel for the gateway itself, and reset the entry.
  The result has the publishing calls in order and the accumulator after the resets.
\<close>

fun send_data :: "string \<Rightarrow> pack_data \<Rightarrow> cloud_call list \<times> pack_data" where
  "send_data gw [] = ([], [])"
| "send_data gw ((device, e) # rest) =
     (let own = (device = gw \<or> device = ''currentThingsBoardGateway'');
          a = (if attributes e \<noteq> []
               then [if own then Send_attributes (attributes e)
                     else Gw_send_attributes device (attributes e)]
               else []);
          t = (if telemetry e \<noteq> []
               then [if own then Send_telemetry (telemetry e)
                     else Gw_send_telemetry device (telemetry e)]
               else []);
          r = send_data gw rest
      in (a @ t @ fst r, (device, empty_data) # snd r))"

text \<open>
  The state of the worker \<^verbatim>\<open>__read_data_from_storage\<close> while it folds a pack: the
  accumulator, the running byte count \<^verbatim>\<open>size\<close> (\<open>size_count\<close> here, \<open>size\<close> being a
  constant of HOL), the queue \<^verbatim>\<open>_published_events\<close> and the event counter. Sizes and the
  configured maximum are natural numbers: \<^verbatim>\<open>getsizeof\<close> of a string is at least 49.
\<close>

record uplink =
  devices_data_in_event_pack :: pack_data
  size_count :: nat
  published_events :: "cloud_call list"
  counter :: nat

text \<open>
  \<^verbatim>\<open>check_size\<close>, applied to the count the caller has just increased; \<open>max_payload\<close> is
  \<^verbatim>\<open>maxPayloadSizeBytes\<close> (4096 when not configured).
\<close>

definition check_size :: "string \<Rightarrow> nat \<Rightarrow> uplink \<Rightarrow> uplink" where
  "check_size gw max_payload u =
     (if size_count u \<ge> max_payload then
        let r = send_data gw (devices_data_in_event_pack u)
        in u\<lparr>devices_data_in_event_pack := snd r,
             published_events := published_events u @ fst r,
             size_count := 0\<rparr>
      else u)"










section \<open>Uplink: draining the completion tokens and committing the pack\<close>

text \<open>
  A completion token: \<^verbatim>\<open>get()\<close> returns a status or raises, and the token carries the
  constant \<^verbatim>\<open>TB_ERR_SUCCESS\<close> the status is compared with.
\<close>

datatype token = Token (get: "exn + int") (TB_ERR_SUCCESS: int)

text \<open>
  What the worker reads from the other threads at one point of its loop: whether a remote
  configurator exists and is in process (\<open>None\<close> when there is none), whether the cloud
  is connected, and the flag \<^verbatim>\<open>__rpc_reply_sent\<close>. The readings are indexed by their order.
\<close>

record reading =
  remote_configurator :: "bool option"
  connected :: bool
  rpc_reply_sent :: bool

definition configurator_idle :: "reading \<Rightarrow> bool" where
  "configurator_idle r = (case remote_configurator r of None \<Rightarrow> True | Some in_process \<Rightarrow> \<not> in_process)"

text \<open>
  The loop \<^verbatim>\<open>while not self._published_events.empty()\<close> of lines 323 to 343, with the
  queue as a list; the result is the final \<^verbatim>\<open>success\<close> and the tokens left in the queue.
\<close>

fun drain :: "(nat \<Rightarrow> reading) \<Rightarrow> int \<Rightarrow> nat \<Rightarrow> bool \<Rightarrow> token list \<Rightarrow> bool \<times> token list" where
  "drain env quality_of_service i success [] = (success, [])"
| "drain env quality_of_service i success (event # queue) =
     (if configurator_idle (env i) \<and> connected (env i) \<and> \<not> rpc_reply_sent (env i) then
        if connected (env (Suc i)) \<and> configurator_idle (env (Suc i)) then
          drain env quality_of_service (Suc (Suc i))
            (if quality_of_service = 1
             then (case get event of Inr status \<Rightarrow> status = TB_ERR_SUCCESS event | Inl e \<Rightarrow> False)
             else True)
            queue
        else (success, queue)
      else (False, event # queue))"

text \<open>
  Lines 320 to 349: the result says whether \<^verbatim>\<open>event_pack_processing_done()\<close> was called,
  and has the tokens left in the queue.
\<close>

definition acknowledge :: "(nat \<Rightarrow> reading) \<Rightarrow> int \<Rightarrow> token list \<Rightarrow> bool \<times> token list" where
  "acknowledge env quality_of_service queue =
     (if connected (env 0) \<and> configurator_idle (env 0)
      then drain env quality_of_service 1 True queue
      else (False, queue))"

section \<open>Server-side RPC requests\<close>

text \<open>
  \<^verbatim>\<open>send_rpc_reply\<close>, with its arguments \<^verbatim>\<open>device\<close>, \<^verbatim>\<open>req_id\<close>, \<^verbatim>\<open>content\<close>,
  \<^verbatim>\<open>success_sent\<close>, \<^verbatim>\<open>wait_for_publish\<close> and \<^verbatim>\<open>quality_of_service\<close>; \<open>None\<close> is
  Python's \<^verbatim>\<open>None\<close>. The flag \<^verbatim>\<open>__rpc_reply_sent\<close> is set and reset around the call.
\<close>

definition send_rpc_reply ::
  "gateway \<Rightarrow> string option \<Rightarrow> int option \<Rightarrow> rpc_content option \<Rightarrow> bool option \<Rightarrow> bool option
     \<Rightarrow> py \<Rightarrow> gateway" where
  "send_rpc_reply g device req_id content success_sent wait_for_publish quality_of_service =
     (let rpc_response = [(''success'', PBool (success_sent = Some True))] in
      case device of
        Some d \<Rightarrow>
          (if success_sent \<noteq> None then
             g\<lparr>cloud := cloud g @
                 [Gw_send_rpc_reply d req_id (Dumps rpc_response) quality_of_service]\<rparr>
           else
             (case (req_id, content) of
                (Some r, Some c) \<Rightarrow>
                  g\<lparr>cloud := cloud g @ [Gw_send_rpc_reply d req_id c quality_of_service]\<rparr>
              | _ \<Rightarrow> g))
      | None \<Rightarrow>
          (if success_sent \<noteq> None then
             g\<lparr>cloud := cloud g @
                 [Send_rpc_reply req_id (Dumps rpc_response) quality_of_service
                    wait_for_publish]\<rparr>
           else
             (case content of
                Some c \<Rightarrow>
                  g\<lparr>cloud := cloud g @
                      [Send_rpc_reply req_id c quality_of_service wait_for_publish]\<rparr>
              | None \<Rightarrow> g)))"

text \<open>
  What the request handler reads besides the gateway state: the loaded connector
  configurations by connector type, the names of the remote shell's commands (\<open>None\<close> when
  the remote shell is disabled and \<^verbatim>\<open>__remote_shell\<close> is \<^verbatim>\<open>None\<close>), the connectors'
  \<^verbatim>\<open>server_side_rpc_handler\<close>, and the gateway's own \<^verbatim>\<open>__rpc_gateway_processing\<close> and
  \<^verbatim>\<open>_handle_rpc_for_connector\<close>, which are parameters here. A handler returns a
  dictionary or \<^verbatim>\<open>None\<close>, or raises.
\<close>

record rpc_setup =
  connectors_configs :: "(string \<times> dict list) list"
  shell_commands :: "string list option"
  server_side_rpc_handler :: "connector \<Rightarrow> dict \<Rightarrow> exn + dict option"
  rpc_gateway_processing :: "int \<Rightarrow> dict \<Rightarrow> exn + dict option"
  handle_rpc_for_connector :: "gateway \<Rightarrow> py \<Rightarrow> dict \<Rightarrow> gateway"

text \<open>\<^verbatim>\<open>content["method"].split('_')[0]\<close>: the text before the first underscore.\<close>

definition module_of :: "string \<Rightarrow> string" where
  "module_of method = takeWhile (\<lambda>c. c \<noteq> CHR ''_'') method"

text \<open>\<^verbatim>\<open>if self.connectors_configs.get(module)\<close>: the type has a list of configurations
  that is not empty.\<close>

definition connector_type_loaded :: "rpc_setup \<Rightarrow> string \<Rightarrow> bool" where
  "connector_type_loaded setup module =
     (case map_of (connectors_configs setup) module of
        None \<Rightarrow> False
      | Some configs \<Rightarrow> configs \<noteq> [])"

text \<open>The loop over \<^verbatim>\<open>available_connectors\<close>: every connector of the type handles the
  request, and the last result stays.\<close>

fun connectors_rpc ::
  "(connector \<Rightarrow> dict \<Rightarrow> exn + dict option) \<Rightarrow> string \<Rightarrow> dict \<Rightarrow> (string \<times> connector) list
     \<Rightarrow> dict option \<Rightarrow> exn + dict option" where
  "connectors_rpc handler module content [] result = Inr result"
| "connectors_rpc handler module content ((connector_name, c) # rest) result =
     (if connector_type c = module then
        (case handler c content of
           Inl e \<Rightarrow> Inl e
         | Inr r \<Rightarrow> connectors_rpc handler module content rest r)
      else connectors_rpc handler module content rest result)"

text \<open>
  The routing of a request without a device, up to the result that is then replied:
  a loaded connector type, the gateway itself or a remote shell command, or neither.
  With the remote shell disabled, \<^verbatim>\<open>self.__remote_shell.shell_commands\<close> is an attribute
  access on \<^verbatim>\<open>None\<close>.
\<close>

definition rpc_result :: "rpc_setup \<Rightarrow> gateway \<Rightarrow> int \<Rightarrow> dict \<Rightarrow> exn + dict option" where
  "rpc_result setup g request_id content =
     (case map_of content ''method'' of
        None \<Rightarrow> Inl (KeyError ''method'')
      | Some (PStr method) \<Rightarrow>
          (let module = module_of method in
           if connector_type_loaded setup module then
             connectors_rpc (server_side_rpc_handler setup) module content
               (available_connectors g) None
           else if module = ''gateway'' then rpc_gateway_processing setup request_id content
           else
             (case shell_commands setup of
                None \<Rightarrow> Inl (NoneType_has_no_attribute ''shell_commands'')
              | Some commands \<Rightarrow>
                  (if module \<in> set commands
                   then rpc_gateway_processing setup request_id content
                   else Inr (Some [(''error'', PStr (module @
                                      '' - connector not found in available connectors.'')),
                                   (''code'', PInt 404)]))))
      | Some v \<Rightarrow> Inl (no_attribute v ''split''))"

definition rpc_request_handler :: "rpc_setup \<Rightarrow> gateway \<Rightarrow> int \<Rightarrow> dict \<Rightarrow> gateway" where
  "rpc_request_handler setup g request_id content =
     (let device = dict_get content ''device'' in
      if device \<noteq> PNone then handle_rpc_for_connector setup g device content
      else
        (case rpc_result setup g request_id content of
           Inl e \<Rightarrow>
             (let g1 = send_rpc_reply g None (Some request_id) (Some (Error_500 (str_exn e)))
                         None None (PInt 0)
              in g1\<lparr>log := log g1 @ [Log_exception e]\<rparr>)
         | Inr None \<Rightarrow>
             send_rpc_reply g None (Some request_id) None (Some False) None (PInt 0)
         | Inr (Some result) \<Rightarrow>
             (case map_of result ''qos'' of
                Some qos \<Rightarrow>
                  send_rpc_reply g None (Some request_id)
                    (Some (Dumps (filter (\<lambda>kv. fst kv \<noteq> ''qos'') result))) None None qos
              | None \<Rightarrow>
                  send_rpc_reply g None (Some request_id) (Some (Dumps result)) None None
                    (PInt 0))))"

section \<open>Measures and reference definitions used by the statements\<close>

subsection \<open>Telemetry normalisation as the specification words it\<close>

text \<open>
  An entry carries an explicit timestamp when it is a dictionary whose \<^verbatim>\<open>ts\<close> is not
  \<^verbatim>\<open>None\<close>; such an entry is stored as \<^verbatim>\<open>{ts, values}\<close>. Any other dictionary is a bare
  map. An entry of the Event data model is a dictionary that, when it has a timestamp, has
  a dictionary of values.
\<close>

definition explicit_ts :: "py \<Rightarrow> bool" where
  "explicit_ts item = (case item of PDict d \<Rightarrow> dict_get d ''ts'' \<noteq> PNone | _ \<Rightarrow> False)"

fun bare_map :: "py \<Rightarrow> dict" where
  "bare_map (PDict d) = d"
| "bare_map _ = []"

definition ts_values :: "py \<Rightarrow> py" where
  "ts_values item =
     (case item of
        PDict d \<Rightarrow> PDict [(''ts'', dict_get d ''ts''), (''values'', dict_get d ''values'')]
      | _ \<Rightarrow> PNone)"

definition telemetry_entry :: "py \<Rightarrow> bool" where
  "telemetry_entry item =
     (case item of
        PDict d \<Rightarrow>
          (if dict_get d ''ts'' = PNone then True
           else (case map_of d ''values'' of Some (PDict vs) \<Rightarrow> True | _ \<Rightarrow> False))
      | _ \<Rightarrow> False)"

subsection \<open>The approximate size of a publish\<close>




subsection \<open>Example inputs\<close>

definition example_gateway :: gateway where
  "example_gateway =
     \<lparr>name = ''gw'', is_connected = True, subscribed_to_rpc_topics = False,
      connected_devices =
        [(''d1'', [(''connector'', PConn (Connector 1 ''c1'' ''mqtt'')),
                   (''device_type'', PStr ''default'')])],
      saved_devices =
        [(''d1'', [(''connector'', PConn (Connector 1 ''c1'' ''mqtt'')),
                   (''device_type'', PStr ''default'')])],
      connected_devices_file = Some [(''d1'', ''c1'')], file_writes = 1,
      cloud = [],
      available_connectors =
        [(''c1'', Connector 1 ''c1'' ''mqtt''), (''c2'', Connector 2 ''c2'' ''modbus'')],
      connector_incoming_messages = [], event_storage = [], storage_capacity = 100,
      log = []\<rparr>"

text \<open>The gateway after a restart: \<^verbatim>\<open>d1\<close> was loaded from the file into
  \<^verbatim>\<open>__connected_devices\<close>, and \<^verbatim>\<open>_saved_devices\<close> is still empty.\<close>

definition restarted_gateway :: gateway where
  "restarted_gateway =
     example_gateway\<lparr>connected_devices :=
                       [(''d1'', [(''connector'', PConn (Connector 1 ''c1'' ''mqtt''))])],
                     saved_devices := []\<rparr>"

definition fresh_gateway :: gateway where
  "fresh_gateway = example_gateway\<lparr>connected_devices := [], saved_devices := [],
                                  connected_devices_file := None, file_writes := 0\<rparr>"

definition attributes_only :: dict where
  "attributes_only =
     [(''deviceName'', PStr ''d2''), (''deviceType'', PStr ''default''),
      (''attributes'', PDict [(''a'', PInt 1)])]"

definition without_name :: dict where
  "without_name = [(''deviceType'', PStr ''default''), (''telemetry'', PList [PDict [(''t'', PInt 1)]])]"

definition valid_item :: dict where
  "valid_item =
     [(''deviceName'', PStr ''d2''), (''deviceType'', PStr ''default''),
      (''telemetry'', PList [PDict [(''t'', PInt 1)]]), (''attributes'', PList [])]"

definition clock :: "nat \<Rightarrow> int" where
  "clock i = 1000 + int i"

definition all_good :: "nat \<Rightarrow> reading" where
  "all_good i = \<lparr>remote_configurator = None, connected = True, rpc_reply_sent = False\<rparr>"

definition lost_at :: "nat \<Rightarrow> nat \<Rightarrow> reading" where
  "lost_at n i = \<lparr>remote_configurator = None, connected = (i < n), rpc_reply_sent = False\<rparr>"

definition shell_disabled :: rpc_setup where
  "shell_disabled =
     \<lparr>connectors_configs = [(''mqtt'', [[]])], shell_commands = None,
      server_side_rpc_handler = (\<lambda>c content. Inr None),
      rpc_gateway_processing = (\<lambda>request_id content. Inr None),
      handle_rpc_for_connector = (\<lambda>g device content. g)\<rparr>"

definition shell_enabled :: rpc_setup where
  "shell_enabled = shell_disabled\<lparr>shell_commands := Some []\<rparr>"









text \<open>
  The first scenario of the specification, with telemetry as a map from key to value, and an
  item whose telemetry is a single \<^verbatim>\<open>{ts, values}\<close> object.
\<close>

definition map_telemetry_item :: dict where
  "map_telemetry_item =
     [(''deviceName'', PStr ''d1''), (''deviceType'', PStr ''sensor''),
      (''telemetry'', PDict [(''t'', PInt 1)])]"

definition single_object_item :: dict where
  "single_object_item =
     [(''deviceName'', PStr ''d1''), (''deviceType'', PStr ''sensor''),
      (''telemetry'', PDict [(''ts'', PInt 5), (''values'', PDict [(''t'', PInt 1)])])]"

text \<open>The connector \<^verbatim>\<open>c1\<close> after its configuration was loaded again: the same name and
  type, another object.\<close>

definition reloaded_c1 :: connector where
  "reloaded_c1 = Connector 3 ''c1'' ''mqtt''"

section \<open>Device registry: properties\<close>

lemma map_of_is_Some: "k \<in> fst ` set al \<Longrightarrow> \<exists>v. map_of al k = Some v"
  by (cases "map_of al k") (simp_all add: map_of_eq_None_iff)

lemma del_device_unknown:
  assumes "device_name \<notin> fst ` set (connected_devices g)"
  shows "del_device g device_name = (Some (KeyError device_name), g)"
proof -
  from assms have "map_of (connected_devices g) device_name = None"
    by (simp add: map_of_eq_None_iff)
  then show ?thesis by (simp add: del_device_def)
qed

lemma del_device_unsaved:
  assumes "device_name \<in> fst ` set (connected_devices g)"
    and "device_name \<notin> fst ` set (saved_devices g)"
  shows "del_device g device_name =
     (Some (KeyError device_name),
      g\<lparr>connected_devices := AList.delete device_name (connected_devices g)\<rparr>)"
proof -
  obtain e where "map_of (connected_devices g) device_name = Some e"
    using assms(1) map_of_is_Some by fastforce
  moreover have "map_of (saved_devices g) device_name = None"
    using assms(2) by (simp add: map_of_eq_None_iff)
  ultimately show ?thesis by (simp add: del_device_def)
qed

lemma del_device_known:
  assumes "device_name \<in> fst ` set (connected_devices g)"
    and "device_name \<in> fst ` set (saved_devices g)"
  shows "del_device g device_name =
     (None,
      save_persistent_devices
        (g\<lparr>connected_devices := AList.delete device_name (connected_devices g),
           saved_devices := AList.delete device_name (saved_devices g),
           cloud := cloud g @ [Gw_disconnect_device device_name]\<rparr>))"
proof -
  obtain e where "map_of (connected_devices g) device_name = Some e"
    using assms(1) map_of_is_Some by fastforce
  moreover obtain e' where "map_of (saved_devices g) device_name = Some e'"
    using assms(2) map_of_is_Some by fastforce
  ultimately show ?thesis by (simp add: del_device_def)
qed

text \<open>
  Claim C9. For a device name that is already a key of \<^verbatim>\<open>_saved_devices\<close>,
  \<^verbatim>\<open>add_device\<close> with any content and any device type changes nothing: the two registry
  maps, the persisted file and the number of times it was written, and the calls made on
  the cloud client (so no \<^verbatim>\<open>gw_connect_device\<close>) are all as before.
\<close>

theorem add_device_known_noop:
  assumes "device_name \<in> fst ` set (saved_devices g)"
  shows "add_device g device_name content device_type = g"
  using assms by (simp add: add_device_def map_of_eq_None_iff)

theorem add_device_known_noop_witness:
  "''d1'' \<in> fst ` set (saved_devices example_gateway) \<and>
   add_device example_gateway ''d1'' [(''connector'', PConn (Connector 2 ''c2'' ''modbus''))]
     (PStr ''sensor'') = example_gateway"
proof -
  have h: "''d1'' \<in> fst ` set (saved_devices example_gateway)"
    by (simp add: example_gateway_def)
  show ?thesis
    using h add_device_known_noop [OF h, of "[(''connector'', PConn (Connector 2 ''c2'' ''modbus''))]"
               "PStr ''sensor''"]
    by simp
qed

text \<open>
  Claim C10 has \<^verbatim>\<open>del_device\<close> remove a device, announce the disconnect and write the
  file only for a name that is in both maps, and raise before any effect otherwise. A
  device loaded from the file at start-up is in \<^verbatim>\<open>__connected_devices\<close> and not in
  \<^verbatim>\<open>_saved_devices\<close>. Deleting it removes its entry from the connected-devices map; then
  \<^verbatim>\<open>del self._saved_devices[device_name]\<close> raises \<^verbatim>\<open>KeyError\<close>, and the announcement and
  the write that follow are never reached: the cloud is not told, the file is not written
  and still lists the device.
\<close>

theorem del_device_removes_unsaved_entry:
  "map_of (saved_devices restarted_gateway) ''d1'' = None \<and>
   map_of (connected_devices restarted_gateway) ''d1'' =
     Some [(''connector'', PConn (Connector 1 ''c1'' ''mqtt''))] \<and>
   del_device restarted_gateway ''d1'' =
     (Some (KeyError ''d1''), restarted_gateway\<lparr>connected_devices := []\<rparr>) \<and>
   cloud (snd (del_device restarted_gateway ''d1'')) = [] \<and>
   file_writes (snd (del_device restarted_gateway ''d1'')) = 1 \<and>
   connected_devices_file (snd (del_device restarted_gateway ''d1'')) = Some [(''d1'', ''c1'')]"
  by (simp add: restarted_gateway_def example_gateway_def del_device_def)

text \<open>
  Claim C8 has the persisted file equal to the in-memory mapping after every mutation, and
  in particular map a device to its new connector after \<^verbatim>\<open>update_device\<close>. The code
  writes the file before it stores the new connector: after the connector of \<^verbatim>\<open>d1\<close> is
  changed from \<^verbatim>\<open>c1\<close> to \<^verbatim>\<open>c2\<close>, the file maps \<^verbatim>\<open>d1\<close> to \<^verbatim>\<open>c1\<close> while the mapping in
  memory, as \<^verbatim>\<open>__save_persistent_devices\<close> would now collect it, maps \<^verbatim>\<open>d1\<close> to \<^verbatim>\<open>c2\<close>.
\<close>

theorem update_device_saves_previous_connector:
  "fst (update_device example_gateway ''d1'' ''connector'' (PConn (Connector 2 ''c2'' ''modbus'')))
     = None \<and>
   file_writes
     (snd (update_device example_gateway ''d1'' ''connector''
             (PConn (Connector 2 ''c2'' ''modbus'')))) = 2 \<and>
   connected_devices_file
     (snd (update_device example_gateway ''d1'' ''connector''
             (PConn (Connector 2 ''c2'' ''modbus'')))) = Some [(''d1'', ''c1'')] \<and>
   data_to_save
     (connected_devices
        (snd (update_device example_gateway ''d1'' ''connector''
                (PConn (Connector 2 ''c2'' ''modbus''))))) = Inr [(''d1'', ''c2'')]"
  by (simp add: example_gateway_def update_device_def dict_get_def save_persistent_devices_def)

text \<open>Storing a connector that was loaded again under the same name also writes the file,
  since the new object is not the old one.\<close>

lemma update_device_reloaded_connector:
  "file_writes (snd (update_device example_gateway ''d1'' ''connector'' (PConn reloaded_c1))) = 2 \<and>
   file_writes
     (snd (update_device example_gateway ''d1'' ''connector''
             (PConn (Connector 1 ''c1'' ''mqtt'')))) = 1"
  by (simp add: example_gateway_def reloaded_c1_def update_device_def dict_get_def
        save_persistent_devices_def)

text \<open>The loop of the main loop over the keys of \<^verbatim>\<open>_saved_devices\<close> changes nothing,
  whatever the registry holds: it either completes or raises on a missing field.\<close>

lemma reannounce_unchanged:
  "set devices \<subseteq> fst ` set (saved_devices g) \<Longrightarrow> snd (reannounce devices g) = g"
proof (induction devices)
  case Nil
  show ?case by simp
next
  case (Cons device devices)
  then have "device \<in> fst ` set (saved_devices g)" by simp
  then obtain e where e: "map_of (saved_devices g) device = Some e"
    using map_of_is_Some by fastforce
  then have "add_device g device content t = g" for content t
    by (simp add: add_device_def)
  with Cons e show ?case
    by (simp split: option.split)
qed

lemma connection_check_cloud:
  "cloud (snd (connection_check g)) = cloud g \<or>
   cloud (snd (connection_check g)) =
     cloud g @ [Clean_device_sub_dict, Gw_set_server_side_rpc_request_handler,
                Set_server_side_rpc_request_handler, Subscribe_to_all_attributes,
                Gw_subscribe_to_all_attributes]"
proof -
  define g1 where "g1 =
    (if \<not> is_connected g \<and> subscribed_to_rpc_topics g
     then g\<lparr>subscribed_to_rpc_topics := False\<rparr> else g)"
  have c: "cloud g1 = cloud g" by (simp add: g1_def)
  have "snd (reannounce (map fst (saved_devices g1)) g1) = g1"
    by (rule reannounce_unchanged) simp
  then show ?thesis
    using c
    by (cases "reannounce (map fst (saved_devices g1)) g1")
       (auto simp: connection_check_def g1_def [symmetric] Let_def
          subscribe_to_service_topics_def split: option.split)
qed

text \<open>
  Claim C4 has every device of the registry announced once with \<^verbatim>\<open>gw_connect_device\<close>
  when the cloud connection comes back. The main loop calls \<^verbatim>\<open>add_device\<close> for the keys
  of \<^verbatim>\<open>_saved_devices\<close>, and \<^verbatim>\<open>add_device\<close> does nothing for a name that is in
  \<^verbatim>\<open>_saved_devices\<close>: with \<^verbatim>\<open>d1\<close> registered, the cloud connected and the subscription
  flag cleared, the only calls made are those of \<^verbatim>\<open>subscribe_to_service_topics\<close>.
\<close>

theorem reconnect_announces_no_device:
  "is_connected example_gateway \<and> \<not> subscribed_to_rpc_topics example_gateway \<and>
   map fst (saved_devices example_gateway) = [''d1''] \<and>
   connection_check example_gateway =
     (None,
      example_gateway\<lparr>subscribed_to_rpc_topics := True,
                      cloud := [Clean_device_sub_dict,
                                Gw_set_server_side_rpc_request_handler,
                                Set_server_side_rpc_request_handler,
                                Subscribe_to_all_attributes,
                                Gw_subscribe_to_all_attributes]\<rparr>)"
  by (simp add: example_gateway_def connection_check_def add_device_def
        subscribe_to_service_topics_def)

section \<open>Ingress: properties\<close>

lemma telemetry_loop_partition:
  "list_all telemetry_entry items \<Longrightarrow>
   telemetry_loop items t w =
     Inr (foldl dict_merge t (map bare_map (filter (\<lambda>x. \<not> explicit_ts x) items)),
          w @ map ts_values (filter explicit_ts items))"
proof (induction items arbitrary: t w)
  case Nil
  then show ?case by simp
next
  case (Cons item items)
  from Cons.prems obtain d where d: "item = PDict d"
    by (auto simp: telemetry_entry_def split: py.splits)
  show ?case
  proof (cases "dict_get d ''ts'' = PNone")
    case True
    then show ?thesis using Cons d by (simp add: explicit_ts_def)
  next
    case False
    with Cons.prems d obtain vs where "map_of d ''values'' = Some (PDict vs)"
      by (auto simp: telemetry_entry_def split: option.splits py.splits)
    then show ?thesis using Cons d False
      by (simp add: explicit_ts_def ts_values_def dict_get_def split: py.splits)
  qed
qed

text \<open>
  For telemetry that is a list of entries of the data model, lines 473 to 490 do what the
  specification says: the entries are split into those with an explicit \<^verbatim>\<open>ts\<close> and the
  bare maps; the event put into the storage carries the list of the \<^verbatim>\<open>{ts, values}\<close>
  entries when there is one, and otherwise the one object \<^verbatim>\<open>{ts: now, values: m}\<close> with
  \<open>m\<close> the merge of the bare maps from left to right.
\<close>

lemma store_list_telemetry:
  assumes "map_of data ''telemetry'' = Some (PList items)"
    and "list_all telemetry_entry items"
  shows "store now g data =
     (if length (event_storage g) < storage_capacity g
      then g\<lparr>event_storage := event_storage g @
               [AList.update ''telemetry''
                  (if filter explicit_ts items \<noteq> []
                   then PList (map ts_values (filter explicit_ts items))
                   else PDict [(''ts'', PInt now),
                               (''values'', PDict (foldl dict_merge []
                                  (map bare_map (filter (\<lambda>x. \<not> explicit_ts x) items))))])
                  data]\<rparr>
      else g\<lparr>log := log g @ [Log_error ''Data from the device cannot be saved'']\<rparr>)"
  using assms(1) telemetry_loop_partition [OF assms(2), of "[]" "[]"]
  by (simp add: store_def normalize_telemetry_def py_iter_def put_def)

text \<open>In the merge a later map overrides an earlier one, key by key.\<close>

lemma map_of_dict_merge:
  "distinct (map fst b) \<Longrightarrow> map_of (dict_merge a b) = map_of a ++ map_of b"
proof (induction b arbitrary: a)
  case Nil
  show ?case by (simp add: dict_merge_def)
next
  case (Cons kv b)
  have step: "dict_merge a (kv # b) = dict_merge (AList.update (fst kv) (snd kv) a) b"
    by (simp add: dict_merge_def)
  from Cons.prems have d: "distinct (map fst b)" and k: "fst kv \<notin> fst ` set b"
    by simp_all
  from k have none: "map_of b (fst kv) = None"
    by (simp add: map_of_eq_None_iff)
  have "map_of (dict_merge a (kv # b)) =
          map_of (AList.update (fst kv) (snd kv) a) ++ map_of b"
    unfolding step by (rule Cons.IH [OF d])
  also have "\<dots> = (map_of a)(fst kv \<mapsto> snd kv) ++ map_of b"
    by (simp only: AList.update_conv')
  also have "\<dots> = map_of a ++ map_of (kv # b)"
    using none by (cases kv) (auto simp: map_add_def fun_eq_iff split: option.splits)
  finally show ?case .
qed

text \<open>
  Claim C7 has the telemetry of every ingress item stored in normalised form, a bare map
  becoming \<^verbatim>\<open>{ts: now, values: m}\<close>. The loop \<^verbatim>\<open>for item in data["telemetry"]\<close> takes the
  telemetry for a list of dictionaries. For the item of the specification's first
  scenario, whose telemetry is the map \<^verbatim>\<open>{t: 1}\<close>, it iterates the keys, \<^verbatim>\<open>item.get\<close> on
  the string \<^verbatim>\<open>t\<close> raises \<^verbatim>\<open>AttributeError\<close>, and after the device was registered and
  announced nothing is stored; the same happens to telemetry that is a single
  \<^verbatim>\<open>{ts, values}\<close> object. The reader of the uplink does tell a list from another value
  with \<^verbatim>\<open>isinstance\<close>.
\<close>

theorem map_telemetry_item_not_stored:
  "validate_converted_data map_telemetry_item \<and>
   fst (send_to_storage_item 1000 fresh_gateway (''c1'', map_telemetry_item)) = Running \<and>
   event_storage (snd (send_to_storage_item 1000 fresh_gateway (''c1'', map_telemetry_item))) = [] \<and>
   cloud (snd (send_to_storage_item 1000 fresh_gateway (''c1'', map_telemetry_item))) =
     [Gw_connect_device ''d1'' (PStr ''sensor'')] \<and>
   log (snd (send_to_storage_item 1000 fresh_gateway (''c1'', map_telemetry_item))) =
     [Log_error_exn (AttributeError ''get'')] \<and>
   validate_converted_data single_object_item \<and>
   event_storage (snd (send_to_storage_item 1000 fresh_gateway (''c1'', single_object_item))) = [] \<and>
   log (snd (send_to_storage_item 1000 fresh_gateway (''c1'', single_object_item))) =
     [Log_error_exn (AttributeError ''get'')]"
  by (simp add: fresh_gateway_def example_gateway_def map_telemetry_item_def
        single_object_item_def send_to_storage_item_def validate_converted_data_def has_key_def
        register_and_count_def add_device_def save_persistent_devices_def count_message_def
        store_def normalize_telemetry_def py_iter_def dict_get_def Let_def)

text \<open>
  Claim C2 has every item that passes validation stored, in particular an item with
  attributes and no \<^verbatim>\<open>telemetry\<close> key, and telemetry of any shape of the data model. The
  worker reads \<^verbatim>\<open>data["telemetry"]\<close> without a check: the item below passes validation,
  its device is registered and announced, and then \<^verbatim>\<open>KeyError\<close> is raised and logged and
  \<^verbatim>\<open>put\<close> is never called. Telemetry that is a single \<^verbatim>\<open>{ts, values}\<close> object is iterated
  by its keys and raises \<^verbatim>\<open>AttributeError\<close>.
\<close>

theorem attributes_only_item_not_stored:
  "validate_converted_data attributes_only \<and>
   fst (send_to_storage_item 1000 fresh_gateway (''c1'', attributes_only)) = Running \<and>
   event_storage (snd (send_to_storage_item 1000 fresh_gateway (''c1'', attributes_only))) = [] \<and>
   cloud (snd (send_to_storage_item 1000 fresh_gateway (''c1'', attributes_only))) =
     [Gw_connect_device ''d2'' (PStr ''default'')] \<and>
   log (snd (send_to_storage_item 1000 fresh_gateway (''c1'', attributes_only))) =
     [Log_error_exn (KeyError ''telemetry'')] \<and>
   normalize_telemetry 1000 (PDict [(''ts'', PInt 1), (''values'', PDict [(''t'', PInt 1)])]) =
     Inl (AttributeError ''get'')"
  by (simp add: fresh_gateway_def example_gateway_def attributes_only_def
        send_to_storage_item_def validate_converted_data_def has_key_def
        register_and_count_def add_device_def save_persistent_devices_def count_message_def
        store_def normalize_telemetry_def py_iter_def Let_def)

text \<open>
  Claim C3 has the worker drop an invalid item and go on to store the valid items behind
  it. On an item that fails validation the code logs the error and executes
  \<^verbatim>\<open>return None\<close>, which ends \<^verbatim>\<open>__send_to_storage\<close> and with it the worker thread: the
  valid item queued behind an item without \<^verbatim>\<open>deviceName\<close> stays in the queue and nothing
  is stored.
\<close>

theorem invalid_item_ends_worker:
  "\<not> validate_converted_data without_name \<and> validate_converted_data valid_item \<and>
   send_to_storage clock 0 [(''c1'', without_name), (''c1'', valid_item)] fresh_gateway =
     (Returned, [(''c1'', valid_item)],
      fresh_gateway\<lparr>log := [Log_error ''Data from connector is invalid.'']\<rparr>)"
  by (simp add: fresh_gateway_def example_gateway_def without_name_def valid_item_def
        send_to_storage_item_def validate_converted_data_def has_key_def Let_def)

section \<open>Uplink: properties\<close>

text \<open>With QoS 1 and nothing disturbing the drain, the outcome is that of the last token,
  whatever the tokens before it reported.\<close>

lemma drain_last_token:
  "drain all_good 1 i success (queue @ [event]) =
     (case get event of Inr status \<Rightarrow> status = TB_ERR_SUCCESS event | Inl e \<Rightarrow> False, [])"
  by (induction queue arbitrary: i success)
     (simp_all add: all_good_def configurator_idle_def)

text \<open>
  Claim C1 has the pack committed if and only if every drained token reported success, and
  not committed when the cloud disconnects during the drain. The loop assigns \<^verbatim>\<open>success\<close>
  anew for every token, so the last token decides: with QoS 1, a token whose status is not
  \<^verbatim>\<open>TB_ERR_SUCCESS\<close> followed by one that succeeds ends in a commit. And when the
  connection is lost between the check at the head of the loop and the check after
  \<^verbatim>\<open>get\<close>, the loop is left with \<^verbatim>\<open>success\<close> as it was, and the pack is committed.
\<close>

theorem acknowledge_commits_after_failed_token:
  "acknowledge all_good 1 [Token (Inr 1) 0, Token (Inr 0) 0] = (True, []) \<and>
   acknowledge (lost_at 2) 1 [Token (Inr 0) 0, Token (Inr 0) 0] = (True, [Token (Inr 0) 0])"
  by (simp add: acknowledge_def all_good_def lost_at_def configurator_idle_def)

text \<open>\<^verbatim>\<open>__send_data\<close> leaves every device's entry empty, and \<^verbatim>\<open>check_size\<close> on a count
  that has reached the maximum sends the accumulator and returns the count 0.\<close>

lemma send_data_reset: "snd ` set (snd (send_data gw acc)) \<subseteq> {empty_data}"
proof (induction acc)
  case Nil
  show ?case by simp
next
  case (Cons a acc)
  obtain device e where "a = (device, e)" by (cases a)
  with Cons show ?case by (simp add: Let_def)
qed

lemma check_size_flush:
  assumes "max_payload \<le> size_count u"
  shows "size_count (check_size gw max_payload u) = 0 \<and>
         snd ` set (devices_data_in_event_pack (check_size gw max_payload u)) \<subseteq> {empty_data} \<and>
         published_events (check_size gw max_payload u) =
           published_events u @ fst (send_data gw (devices_data_in_event_pack u))"
  using assms send_data_reset [of gw "devices_data_in_event_pack u"]
  by (simp add: check_size_def Let_def)


section \<open>Server-side RPC requests: properties\<close>

text \<open>A method that is not a string has no \<^verbatim>\<open>split\<close>; the reply names its type.\<close>

lemma non_string_method_reply:
  "cloud (rpc_request_handler shell_enabled example_gateway 7 [(''method'', PInt 5)]) =
     [Send_rpc_reply (Some 7) (Error_500 (str_exn (no_attribute (PInt 5) ''split''))) (PInt 0)
        None] \<and>
   str_exn (no_attribute (PInt 5) ''split'') =
     CHR 0x27 # ''int'' @ CHR 0x27 # '' object has no attribute '' @ CHR 0x27 # ''split'' @
     [CHR 0x27]"
  by (simp add: rpc_request_handler_def rpc_result_def shell_disabled_def shell_enabled_def
        example_gateway_def dict_get_def send_rpc_reply_def no_attribute_def)

text \<open>
  Claim C5 has a request whose method prefix is neither a loaded connector type nor
  \<^verbatim>\<open>gateway\<close> nor a remote shell command answered with "connector not found" and code
  404 in every configuration. The test \<^verbatim>\<open>module in self.__remote_shell.shell_commands\<close>
  is made without the check for \<^verbatim>\<open>None\<close> that \<^verbatim>\<open>__rpc_gateway_processing\<close> makes: with
  the remote shell disabled, the request \<^verbatim>\<open>foo_bar\<close> is answered with the text of the
  \<^verbatim>\<open>AttributeError\<close> and code 500. With the remote shell enabled the answer is the 404.
\<close>

theorem unknown_module_without_remote_shell:
  "cloud (rpc_request_handler shell_disabled example_gateway 7 [(''method'', PStr ''foo_bar'')]) =
     [Send_rpc_reply (Some 7)
        (Error_500 (str_exn (NoneType_has_no_attribute ''shell_commands''))) (PInt 0) None] \<and>
   cloud (rpc_request_handler shell_enabled example_gateway 7 [(''method'', PStr ''foo_bar'')]) =
     [Send_rpc_reply (Some 7)
        (Dumps [(''error'', PStr ''foo - connector not found in available connectors.''),
                (''code'', PInt 404)]) (PInt 0) None]"
  by (simp add: rpc_request_handler_def rpc_result_def shell_disabled_def shell_enabled_def
        example_gateway_def dict_get_def module_of_def connector_type_loaded_def
        send_rpc_reply_def NoneType_has_no_attribute_def)

end
